theory Spec2Isabelle
  imports Main "HOL-Library.Word"
begin

section \<open>Values that travel through the server\<close>

text \<open>
  \<^verbatim>\<open>server.js\<close> is glue: six Express routes that hand the request to a mongoose model or
  to a multer upload and map the outcome to a status code. The routes, the schema and the
  storage parameters are translated from the file. What the collaborators do (mongoose and
  the database behind it, multer, the media host) is not code of the repository; it is
  modelled here as an in-memory collection and an in-memory media host, each operation
  doing what the library call of that name does. Both collaborators are taken to be
  reachable: a lost connection is outside the model.

  A JSON value as \<^verbatim>\<open>express.json()\<close> parses it. The server never computes with numbers, so
  a number is held as the text JavaScript's \<^verbatim>\<open>String\<close> prints for the parsed value:
  \<^verbatim>\<open>1\<close> for the body text \<^verbatim>\<open>1.0\<close>, and \<^verbatim>\<open>Infinity\<close> for the body text \<^verbatim>\<open>1e400\<close>, which
  is beyond the range of a double. A string is held as its UTF-8 text. An object is the
  list of its properties in the order JavaScript enumerates them. A value that may be
  \<^verbatim>\<open>undefined\<close> (a property the body does not have) is a \<open>json option\<close>, with
  \<open>None\<close> for \<^verbatim>\<open>undefined\<close>.
\<close>

datatype json =
    JNull
  | JBool bool
  | JNum string
  | JStr string
  | JArr "json list"
  | JObj "(string \<times> json) list"

text \<open>
  \<^verbatim>\<open>req.body\<close>: the object \<^verbatim>\<open>express.json()\<close> leaves there, as the list of its
  properties (each name once); \<^verbatim>\<open>const { title, sections } = req.body\<close> is the lookup
  of the two names.
\<close>

type_synonym body = "(string \<times> json) list"

datatype error =
    CastError
  | ValidationError
  | DuplicateKeyError
  | LIMIT_UNEXPECTED_FILE
  | UnsupportedFormatError

section \<open>Identifiers of stored documents\<close>

text \<open>
  The store names a document by an ObjectId, twelve bytes, which travels in URLs and in
  JSON as 24 hexadecimal digits. A route parameter is any string; the driver casts it to
  an ObjectId before it queries, and the cast fails on a string that is not 24
  hexadecimal digits.
\<close>

type_synonym objectid = "96 word"


definition hexValue :: "char \<Rightarrow> nat option" where
  "hexValue c =
     (let n = (of_char c :: nat)
      in if 48 \<le> n \<and> n \<le> 57 then Some (n - 48)
         else if 97 \<le> n \<and> n \<le> 102 then Some (n - 87)
         else if 65 \<le> n \<and> n \<le> 70 then Some (n - 55)
         else None)"


fun fromHex :: "string \<Rightarrow> nat \<Rightarrow> nat option" where
  "fromHex [] acc = Some acc"
| "fromHex (c # cs) acc =
     (case hexValue c of None \<Rightarrow> None | Some d \<Rightarrow> fromHex cs (16 * acc + d))"


definition castObjectId :: "string \<Rightarrow> objectid option" where
  "castObjectId s =
     (if length s = 24 then map_option of_nat (fromHex s 0) else None)"

section \<open>The schema and the model\<close>

text \<open>
  \<^verbatim>\<open>
  const emailTemplateSchema = new mongoose.Schema(
    { title: { type: String, required: true },
      sections: { type: Array, default: [] } },
    { timestamps: true });
  \<close>
  A stored document has the two declared paths, the identifier (\<^verbatim>\<open>_id\<close> in the store,
  \<open>doc_id\<close> here) and the two timestamps of the \<^verbatim>\<open>timestamps\<close> option, in
  milliseconds. A path can hold \<^verbatim>\<open>null\<close>, which is \<open>None\<close> here. The schema puts no
  type on the elements of \<^verbatim>\<open>sections\<close>: the cast leaves them as they are submitted.
\<close>

record doc =
  doc_id :: objectid
  title :: "string option"
  sections :: "json list option"
  createdAt :: nat
  updatedAt :: nat

type_synonym collection = "doc list"

text \<open>
  The schema does not set \<^verbatim>\<open>minimize\<close>, so the driver's default holds: whenever a
  document is turned into a plain object (for the insert, and for \<^verbatim>\<open>res.json\<close>), an
  object that has no property left is taken for \<^verbatim>\<open>undefined\<close> and dropped from the object
  that holds it. An object that is itself an element of an array stays, also when it is
  empty. \<open>None\<close> is \<^verbatim>\<open>undefined\<close>.
\<close>

fun clone :: "bool \<Rightarrow> json \<Rightarrow> json option"
  and cloneObject :: "(string \<times> json) list \<Rightarrow> (string \<times> json) list"
  and cloneArray :: "json list \<Rightarrow> json list" where
  "clone isArrayChild (JObj kvs) =
     (let ret = cloneObject kvs
      in if isArrayChild \<or> ret \<noteq> [] then Some (JObj ret) else None)"
| "clone isArrayChild (JArr xs) = Some (JArr (cloneArray xs))"
| "clone isArrayChild JNull = Some JNull"
| "clone isArrayChild (JBool b) = Some (JBool b)"
| "clone isArrayChild (JNum s) = Some (JNum s)"
| "clone isArrayChild (JStr s) = Some (JStr s)"
| "cloneObject [] = []"
| "cloneObject ((k, v) # kvs) =
     (case clone False v of
        None \<Rightarrow> cloneObject kvs
      | Some val \<Rightarrow> (k, val) # cloneObject kvs)"
| "cloneArray [] = []"
| "cloneArray (x # xs) =
     (case clone True x of None \<Rightarrow> JNull | Some val \<Rightarrow> val) # cloneArray xs"

text \<open>
  \<^verbatim>\<open>JSON.stringify\<close>, read back by the client: a number that is not finite is printed as
  \<^verbatim>\<open>null\<close>; everything else is printed as it is.
\<close>

fun stringify :: "json \<Rightarrow> json"
  and stringify_properties :: "(string \<times> json) list \<Rightarrow> (string \<times> json) list"
  and stringify_elements :: "json list \<Rightarrow> json list" where
  "stringify (JNum s) =
     (if s = ''Infinity'' \<or> s = ''-Infinity'' \<or> s = ''NaN'' then JNull else JNum s)"
| "stringify (JObj kvs) = JObj (stringify_properties kvs)"
| "stringify (JArr xs) = JArr (stringify_elements xs)"
| "stringify JNull = JNull"
| "stringify (JBool b) = JBool b"
| "stringify (JStr s) = JStr s"
| "stringify_properties [] = []"
| "stringify_properties ((k, v) # kvs) = (k, stringify v) # stringify_properties kvs"
| "stringify_elements [] = []"
| "stringify_elements (x # xs) = stringify x # stringify_elements xs"

text \<open>
  \<^verbatim>\<open>toObject\<close> is the plain object the insert sends to the database; \<^verbatim>\<open>toJSON\<close> is
  what \<^verbatim>\<open>res.json(document)\<close> lets the client read.
\<close>

definition toObject :: "doc \<Rightarrow> doc" where
  "toObject d = d\<lparr> sections := map_option cloneArray (sections d) \<rparr>"

definition toJSON :: "doc \<Rightarrow> doc" where
  "toJSON d = d\<lparr> sections := map_option (\<lambda>xs. stringify_elements (cloneArray xs)) (sections d) \<rparr>"


definition ordinary_name :: "string \<Rightarrow> bool" where
  "ordinary_name k =
     (k \<noteq> [] \<and> k \<noteq> ''__proto__'' \<and> k \<noteq> ''constructor'' \<and> k \<noteq> ''prototype''
      \<and> k \<noteq> ''_bsontype'' \<and> hd k \<noteq> CHR ''$'' \<and> CHR ''.'' \<notin> set k \<and> CHR 0x00 \<notin> set k)"

fun storable :: "nat \<Rightarrow> json \<Rightarrow> bool"
  and storable_properties :: "nat \<Rightarrow> (string \<times> json) list \<Rightarrow> bool"
  and storable_elements :: "nat \<Rightarrow> json list \<Rightarrow> bool" where
  "storable n (JObj kvs) = (case n of 0 \<Rightarrow> False | Suc m \<Rightarrow> storable_properties m kvs)"
| "storable n (JArr xs) = (case n of 0 \<Rightarrow> False | Suc m \<Rightarrow> storable_elements m xs)"
| "storable n JNull = True"
| "storable n (JBool b) = True"
| "storable n (JNum s) = True"
| "storable n (JStr s) = True"
| "storable_properties n [] = True"
| "storable_properties n ((k, v) # kvs) =
     (ordinary_name k \<and> storable n v \<and> storable_properties n kvs)"
| "storable_elements n [] = True"
| "storable_elements n (x # xs) = (storable n x \<and> storable_elements n xs)"

text \<open>
  The cast of the path \<^verbatim>\<open>title\<close> (type String): \<^verbatim>\<open>null\<close> stays, a string stays, a
  number or a boolean is printed, an object with a non-empty string \<^verbatim>\<open>_id\<close> gives that
  string, and an array or any other object is a cast error.
\<close>

fun castString :: "json \<Rightarrow> error + string option" where
  "castString JNull = Inr None"
| "castString (JStr s) = Inr (Some s)"
| "castString (JNum s) = Inr (Some s)"
| "castString (JBool b) = Inr (Some (if b then ''true'' else ''false''))"
| "castString (JArr xs) = Inl CastError"
| "castString (JObj kvs) =
     (case map_of kvs ''_id'' of
        Some (JStr s) \<Rightarrow> if s \<noteq> [] then Inr (Some s) else Inl CastError
      | _ \<Rightarrow> Inl CastError)"

text \<open>
  The cast of the path \<^verbatim>\<open>sections\<close> (type Array, of anything): \<^verbatim>\<open>null\<close> stays, an
  array stays, any other value becomes the array holding it.
\<close>

fun castArray :: "json \<Rightarrow> json list option" where
  "castArray JNull = None"
| "castArray (JArr xs) = Some xs"
| "castArray v = Some [v]"

text \<open>
  \<^verbatim>\<open>new EmailTemplate({ title, sections })\<close>: a document not yet saved. The constructor
  draws the identifier, casts what it is given and keeps a cast error for validation; an
  \<^verbatim>\<open>undefined\<close> path takes its default (\<^verbatim>\<open>[]\<close> for sections, none for title).
\<close>

record draft =
  draft_id :: objectid
  draft_title :: "error + string option"
  draft_sections :: "json list option"

definition EmailTemplate :: "objectid \<Rightarrow> json option \<Rightarrow> json option \<Rightarrow> draft" where
  "EmailTemplate oid t s =
     \<lparr> draft_id = oid,
       draft_title = (case t of None \<Rightarrow> Inr None | Some v \<Rightarrow> castString v),
       draft_sections = (case s of None \<Rightarrow> Some [] | Some v \<Rightarrow> castArray v) \<rparr>"

text \<open>
  \<^verbatim>\<open>newTemplate.save()\<close>: validation, then the insert. \<^verbatim>\<open>required: true\<close> on a String
  path asks for a string of positive length. The timestamps are set to the time of the
  save. The collection has a unique index on the identifier, so an insert under an
  identifier already there is refused. What is inserted is \<open>toObject\<close> of the document;
  what \<^verbatim>\<open>save\<close> resolves to is the document itself.
\<close>

definition save :: "nat \<Rightarrow> draft \<Rightarrow> collection \<Rightarrow> error + (doc \<times> collection)" where
  "save now d coll =
     (case draft_title d of
        Inl e \<Rightarrow> Inl ValidationError
      | Inr None \<Rightarrow> Inl ValidationError
      | Inr (Some t) \<Rightarrow>
          if t = [] then Inl ValidationError
          else if draft_id d \<in> set (map doc_id coll) then Inl DuplicateKeyError
          else
            let saved = \<lparr> doc_id = draft_id d, title = Some t,
                           sections = draft_sections d,
                           createdAt = now, updatedAt = now \<rparr>
            in Inr (saved, coll @ [toObject saved]))"

text \<open>\<^verbatim>\<open>EmailTemplate.findById(id)\<close>: the cast of the identifier, then the lookup.\<close>

definition findById :: "string \<Rightarrow> collection \<Rightarrow> error + doc option" where
  "findById ident coll =
     (case castObjectId ident of
        None \<Rightarrow> Inl CastError
      | Some k \<Rightarrow> Inr (find (\<lambda>d. doc_id d = k) coll))"

text \<open>The store's two write operations on one document: the first that has the identifier.\<close>

fun findOneAndUpdate :: "objectid \<Rightarrow> (doc \<Rightarrow> doc) \<Rightarrow> collection \<Rightarrow> doc option \<times> collection" where
  "findOneAndUpdate k f [] = (None, [])"
| "findOneAndUpdate k f (d # ds) =
     (if doc_id d = k then (Some (f d), f d # ds)
      else (case findOneAndUpdate k f ds of (r, ds') \<Rightarrow> (r, d # ds')))"

fun findOneAndDelete :: "objectid \<Rightarrow> collection \<Rightarrow> doc option \<times> collection" where
  "findOneAndDelete k [] = (None, [])"
| "findOneAndDelete k (d # ds) =
     (if doc_id d = k then (Some d, ds)
      else (case findOneAndDelete k ds of (r, ds') \<Rightarrow> (r, d # ds')))"

text \<open>
  Modelled from the spec: the store's update operation, whose code, the mongoose driver,
  is not under \<^verbatim>\<open>src/\<close>. Section 4.2: it replaces title and sections and returns the
  document after the update. A submitted value is cast as in the constructor; validators
  do not run; the schema's \<^verbatim>\<open>timestamps\<close> option adds the time to \<^verbatim>\<open>updatedAt\<close>. What
  happens to a field the request omits is left open by the spec (sections 3 and 9) and
  depends on the version of the driver, which nothing in the repository fixes: it is the
  parameter \<open>omitUndefined\<close>. When it holds, an entry whose value is \<^verbatim>\<open>undefined\<close> is left
  out of the update (mongoose 6 and later); when it does not, the entry is written as
  \<^verbatim>\<open>null\<close> (mongoose 5).
\<close>

definition castUpdate ::
  "bool \<Rightarrow> nat \<Rightarrow> json option \<Rightarrow> json option \<Rightarrow> error + (doc \<Rightarrow> doc)" where
  "castUpdate omitUndefined now t s =
     (case (case t of None \<Rightarrow> Inr None
                    | Some v \<Rightarrow> (case castString v of Inl e \<Rightarrow> Inl e | Inr x \<Rightarrow> Inr (Some x))) of
        Inl e \<Rightarrow> Inl e
      | Inr t' \<Rightarrow>
          Inr (\<lambda>d. d\<lparr> title := (case t' of
                                     None \<Rightarrow> if omitUndefined then title d else None
                                   | Some x \<Rightarrow> x),
                      sections := (case s of
                                     None \<Rightarrow> if omitUndefined then sections d else None
                                   | Some v \<Rightarrow> castArray v),
                      updatedAt := now \<rparr>))"

text \<open>
  \<^verbatim>\<open>EmailTemplate.findByIdAndUpdate(id, { title, sections }, { new: true })\<close>: with
  \<^verbatim>\<open>new: true\<close> the result is the document after the update.
\<close>

definition findByIdAndUpdate ::
  "bool \<Rightarrow> nat \<Rightarrow> string \<Rightarrow> json option \<Rightarrow> json option \<Rightarrow> collection
     \<Rightarrow> error + (doc option \<times> collection)" where
  "findByIdAndUpdate omitUndefined now ident t s coll =
     (case castObjectId ident of
        None \<Rightarrow> Inl CastError
      | Some k \<Rightarrow>
          (case castUpdate omitUndefined now t s of
             Inl e \<Rightarrow> Inl e
           | Inr f \<Rightarrow> Inr (findOneAndUpdate k f coll)))"

text \<open>\<^verbatim>\<open>EmailTemplate.findByIdAndDelete(id)\<close>.\<close>

definition findByIdAndDelete :: "string \<Rightarrow> collection \<Rightarrow> error + (doc option \<times> collection)" where
  "findByIdAndDelete ident coll =
     (case castObjectId ident of
        None \<Rightarrow> Inl CastError
      | Some k \<Rightarrow> Inr (findOneAndDelete k coll))"

section \<open>The template routes\<close>

text \<open>
  A response is a status code and what the client reads of what \<^verbatim>\<open>res.json\<close> is given:
  a document (as \<open>toJSON\<close> shows it), the list of documents, \<^verbatim>\<open>{ error: ... }\<close>, \<^verbatim>\<open>{ message: ... }\<close> or \<^verbatim>\<open>{ imageUrl: ... }\<close>.
  \<open>ErrorPage\<close> is the page Express's own error handler sends when a middleware fails.
\<close>

datatype payload =
    Template doc
  | Templates "doc list"
  | ErrorMessage string
  | Message string
  | ImageUrl string
  | ErrorPage

type_synonym response = "nat \<times> payload"

text \<open>
  \<^verbatim>\<open>
  app.post('/api/email-templates', async (req, res) => {
    const { title, sections } = req.body;
    try {
      const newTemplate = new EmailTemplate({ title, sections });
      const savedTemplate = await newTemplate.save();
      res.status(201).json(savedTemplate);
    } catch (error) {
      res.status(500).json({ error: 'Failed to create email template.' });
    }
  });
  \<close>
  The identifier the constructor draws and the time of the save come from outside: they
  are the arguments \<open>oid\<close> and \<open>now\<close>.
\<close>

definition post_email_templates ::
  "objectid \<Rightarrow> nat \<Rightarrow> body \<Rightarrow> collection \<Rightarrow> response \<times> collection" where
  "post_email_templates oid now req_body coll =
     (let t = map_of req_body ''title''; s = map_of req_body ''sections''
      in case save now (EmailTemplate oid t s) coll of
           Inr (savedTemplate, coll') \<Rightarrow> ((201, Template (toJSON savedTemplate)), coll')
         | Inl e \<Rightarrow> ((500, ErrorMessage ''Failed to create email template.''), coll))"

text \<open>\<^verbatim>\<open>app.get('/api/email-templates')\<close>: \<^verbatim>\<open>res.json(await EmailTemplate.find())\<close>.\<close>

definition get_email_templates :: "collection \<Rightarrow> response" where
  "get_email_templates coll = (200, Templates (map toJSON coll))"

text \<open>
  \<^verbatim>\<open>
  app.get('/api/email-templates/:id', async (req, res) => {
    const { id } = req.params;
    try {
      const template = await EmailTemplate.findById(id);
      if (!template) {
        return res.status(404).json({ error: 'Template not found.' });
      }
      res.json(template);
    } catch (error) {
      res.status(500).json({ error: 'Failed to fetch the email template.' });
    }
  });
  \<close>
\<close>

definition get_email_template :: "string \<Rightarrow> collection \<Rightarrow> response" where
  "get_email_template ident coll =
     (case findById ident coll of
        Inr None \<Rightarrow> (404, ErrorMessage ''Template not found.'')
      | Inr (Some template) \<Rightarrow> (200, Template (toJSON template))
      | Inl e \<Rightarrow> (500, ErrorMessage ''Failed to fetch the email template.''))"

text \<open>
  \<^verbatim>\<open>
  app.put('/api/email-templates/:id', async (req, res) => {
    const { id } = req.params;
    const { title, sections } = req.body;
    try {
      const updatedTemplate = await EmailTemplate.findByIdAndUpdate(
        id, { title, sections }, { new: true });
      if (!updatedTemplate) {
        return res.status(404).json({ error: 'Template not found.' });
      }
      res.json(updatedTemplate);
    } catch (error) {
      res.status(500).json({ error: 'Failed to update the email template.' });
    }
  });
  \<close>
\<close>

definition put_email_template ::
  "bool \<Rightarrow> nat \<Rightarrow> string \<Rightarrow> body \<Rightarrow> collection \<Rightarrow> response \<times> collection" where
  "put_email_template omitUndefined now ident req_body coll =
     (let t = map_of req_body ''title''; s = map_of req_body ''sections''
      in case findByIdAndUpdate omitUndefined now ident t s coll of
           Inr (None, coll') \<Rightarrow> ((404, ErrorMessage ''Template not found.''), coll')
         | Inr (Some updatedTemplate, coll') \<Rightarrow>
             ((200, Template (toJSON updatedTemplate)), coll')
         | Inl e \<Rightarrow> ((500, ErrorMessage ''Failed to update the email template.''), coll))"

text \<open>
  \<^verbatim>\<open>
  app.delete('/api/email-templates/:id', async (req, res) => {
    const { id } = req.params;
    try {
      const deletedTemplate = await EmailTemplate.findByIdAndDelete(id);
      if (!deletedTemplate) {
        return res.status(404).json({ error: 'Template not found.' });
      }
      res.json({ message: 'Template deleted successfully.' });
    } catch (error) {
      res.status(500).json({ error: 'Failed to delete the email template.' });
    }
  });
  \<close>
\<close>

definition delete_email_template :: "string \<Rightarrow> collection \<Rightarrow> response \<times> collection" where
  "delete_email_template ident coll =
     (case findByIdAndDelete ident coll of
        Inr (None, coll') \<Rightarrow> ((404, ErrorMessage ''Template not found.''), coll')
      | Inr (Some deletedTemplate, coll') \<Rightarrow>
          ((200, Message ''Template deleted successfully.''), coll')
      | Inl e \<Rightarrow> ((500, ErrorMessage ''Failed to delete the email template.''), coll))"

section \<open>The upload route\<close>

text \<open>
  \<^verbatim>\<open>
  const storage = new CloudinaryStorage({
    cloudinary,
    params: { folder: 'email-images',
              allowed_formats: ['jpg', 'png', 'jpeg', 'gif'] },
  });
  const upload = multer({ storage });
  \<close>
\<close>

record storage_params =
  folder :: string
  allowed_formats :: "string list"

definition storage :: storage_params where
  "storage = \<lparr> folder = ''email-images'',
               allowed_formats = [''jpg'', ''png'', ''jpeg'', ''gif''] \<rparr>"

text \<open>
  A file part of a multipart request: the form field it is attached under, the file
  name the client gave, and the image format of its content, as the media host finds it.
\<close>

record file_part =
  fieldname :: string
  originalname :: string
  format :: string

text \<open>What the media host keeps of an upload, and the URL it serves it under.\<close>

record asset =
  asset_folder :: string
  public_id :: string
  asset_format :: string

type_synonym media = "asset list"

definition secure_url :: "asset \<Rightarrow> string" where
  "secure_url a =
     ''https://res.cloudinary.com/image/upload/'' @ asset_folder a @ ''/'' @ public_id a
       @ ''.'' @ asset_format a"

text \<open>
  Modelled from the spec: the media host's upload, whose code (the hosted service and
  its SDK) is not under \<^verbatim>\<open>src/\<close>. Section 4.3: it accepts only files whose format is one
  of the allow-list, rejects anything else with \<open>UnsupportedFormatError\<close>, and keeps an
  accepted file in the given folder under a public identifier the host draws (the
  argument \<open>pid\<close>).
\<close>

definition cloudinary_upload ::
  "storage_params \<Rightarrow> string \<Rightarrow> file_part \<Rightarrow> media \<Rightarrow> error + (asset \<times> media)" where
  "cloudinary_upload params pid f m =
     (if format f \<in> set (allowed_formats params) then
        let a = \<lparr> asset_folder = folder params, public_id = pid, asset_format = format f \<rparr>
        in Inr (a, m @ [a])
      else Inl UnsupportedFormatError)"

text \<open>
  When multer gives up on a request it asks the storage to remove what the request had
  already uploaded.
\<close>

definition removeUploaded :: "asset option \<Rightarrow> media \<Rightarrow> media" where
  "removeUploaded uploaded m = (case uploaded of None \<Rightarrow> m | Some a \<Rightarrow> remove1 a m)"

text \<open>
  \<^verbatim>\<open>upload.single('image')\<close>: multer walks the file parts of the request in order. A part
  with no file name is skipped. A file under another field name, or a second file under
  the expected one (\<open>filesLeft\<close> starts at 1), ends the request with the error
  \<open>LIMIT_UNEXPECTED_FILE\<close>. The expected file goes to the storage, and \<^verbatim>\<open>req.file\<close> is
  what the storage answers. A request that is not multipart has no file part.
\<close>

fun multer_files ::
  "string \<Rightarrow> storage_params \<Rightarrow> string \<Rightarrow> nat \<Rightarrow> file_part list \<Rightarrow> asset option \<Rightarrow> media
     \<Rightarrow> (error + asset option) \<times> media" where
  "multer_files name params pid filesLeft [] req_file m = (Inr req_file, m)"
| "multer_files name params pid filesLeft (f # fs) req_file m =
     (if originalname f = [] then multer_files name params pid filesLeft fs req_file m
      else if fieldname f \<noteq> name \<or> filesLeft = 0 then
        (Inl LIMIT_UNEXPECTED_FILE, removeUploaded req_file m)
      else
        (case cloudinary_upload params pid f m of
           Inl e \<Rightarrow> (Inl e, removeUploaded req_file m)
         | Inr (a, m') \<Rightarrow> multer_files name params pid (filesLeft - 1) fs (Some a) m'))"

definition upload_single ::
  "string \<Rightarrow> string \<Rightarrow> file_part list \<Rightarrow> media \<Rightarrow> (error + asset option) \<times> media" where
  "upload_single name pid parts m = multer_files name storage pid 1 parts None m"

text \<open>
  \<^verbatim>\<open>
  app.post('/api/upload-image', upload.single('image'), (req, res) => {
    if (!req.file) {
      return res.status(400).json({ error: 'No image uploaded.' });
    }
    res.json({ imageUrl: req.file.path });
  });
  \<close>
  An error of the middleware never reaches the handler: Express answers it with its
  own error page and status 500.
\<close>

definition post_upload_image :: "string \<Rightarrow> file_part list \<Rightarrow> media \<Rightarrow> response \<times> media" where
  "post_upload_image pid parts m =
     (case upload_single ''image'' pid parts m of
        (Inl e, m') \<Rightarrow> ((500, ErrorPage), m')
      | (Inr None, m') \<Rightarrow> ((400, ErrorMessage ''No image uploaded.''), m')
      | (Inr (Some req_file), m') \<Rightarrow> ((200, ImageUrl (secure_url req_file)), m'))"

section \<open>The server\<close>

text \<open>
  The state the routes work on is the collection of templates and the media host. What a
  request takes from outside is the identifier the driver draws, the clock, the public
  identifier the media host draws, and how the installed driver treats an \<^verbatim>\<open>undefined\<close>
  entry of an update.
\<close>

record server_state =
  templates :: collection
  images :: media

record env =
  new_oid :: objectid
  clock :: nat
  new_public_id :: string
  omit_undefined :: bool

datatype request =
    POST_email_templates body
  | GET_email_templates
  | GET_email_template string
  | PUT_email_template string body
  | DELETE_email_template string
  | POST_upload_image "file_part list"

fun app :: "env \<Rightarrow> request \<Rightarrow> server_state \<Rightarrow> response \<times> server_state" where
  "app e (POST_email_templates b) st =
     (case post_email_templates (new_oid e) (clock e) b (templates st) of
        (r, coll') \<Rightarrow> (r, st\<lparr>templates := coll'\<rparr>))"
| "app e GET_email_templates st = (get_email_templates (templates st), st)"
| "app e (GET_email_template ident) st = (get_email_template ident (templates st), st)"
| "app e (PUT_email_template ident b) st =
     (case put_email_template (omit_undefined e) (clock e) ident b (templates st) of
        (r, coll') \<Rightarrow> (r, st\<lparr>templates := coll'\<rparr>))"
| "app e (DELETE_email_template ident) st =
     (case delete_email_template ident (templates st) of
        (r, coll') \<Rightarrow> (r, st\<lparr>templates := coll'\<rparr>))"
| "app e (POST_upload_image parts) st =
     (case post_upload_image (new_public_id e) parts (images st) of
        (r, m') \<Rightarrow> (r, st\<lparr>images := m'\<rparr>))"

section \<open>Identifiers: printing and casting\<close>







lemma fromHex_None_iff: "fromHex s acc = None \<longleftrightarrow> (\<exists>c \<in> set s. hexValue c = None)"
  by (induction s arbitrary: acc) (auto split: option.splits)

lemma castObjectId_None_iff:
  "castObjectId s = None \<longleftrightarrow> length s \<noteq> 24 \<or> (\<exists>c \<in> set s. hexValue c = None)"
  by (simp add: castObjectId_def fromHex_None_iff)


lemma castObjectId_example:
  "castObjectId ''507f1f77bcf86cd799439011'' = Some 0x507f1f77bcf86cd799439011"
  by (simp add: castObjectId_def hexValue_def)

section \<open>What the store and the response keep of a value\<close>







text \<open>Cloning what has been cloned changes nothing more.\<close>

lemma clone_clone:
  "clone c v = Some w \<Longrightarrow>
     clone True w = Some w \<and> (w \<noteq> JObj [] \<longrightarrow> clone False w = Some w) \<and> (\<not> c \<longrightarrow> w \<noteq> JObj [])"
  "cloneObject (cloneObject kvs) = cloneObject kvs"
  "cloneArray (cloneArray xs) = cloneArray xs"
proof (induction c v and kvs and xs arbitrary: w rule: clone_cloneObject_cloneArray.induct)
  case (1 isArrayChild kvs)
  then show ?case by (auto simp: Let_def split: if_splits)
next
  case (8 k v kvs)
  then show ?case by (auto split: option.splits)
next
  case (10 x xs)
  then show ?case by (auto split: option.splits)
qed auto

lemma toJSON_toObject: "toJSON (toObject d) = toJSON d"
  by (cases "sections d") (simp_all add: toJSON_def toObject_def clone_clone(3))

lemma toJSON_fields:
  "doc_id (toJSON d) = doc_id d" "title (toJSON d) = title d"
  "createdAt (toJSON d) = createdAt d" "updatedAt (toJSON d) = updatedAt d"
  "sections (toJSON d) = map_option (\<lambda>xs. stringify_elements (cloneArray xs)) (sections d)"
  by (simp_all add: toJSON_def)

lemma toObject_fields:
  "doc_id (toObject d) = doc_id d" "title (toObject d) = title d"
  "createdAt (toObject d) = createdAt d" "updatedAt (toObject d) = updatedAt d"
  "sections (toObject d) = map_option cloneArray (sections d)"
  by (simp_all add: toObject_def)


section \<open>The collection\<close>

lemma find_None_iff_fresh: "find (\<lambda>d. doc_id d = k) coll = None \<longleftrightarrow> k \<notin> doc_id ` set coll"
  by (auto simp: find_None_iff)

lemma find_Some_id: "find (\<lambda>d. doc_id d = k) coll = Some d \<Longrightarrow> doc_id d = k \<and> d \<in> set coll"
  by (induction coll) (auto split: if_splits)


lemma findOneAndUpdate_absent:
  "find (\<lambda>d. doc_id d = k) coll = None \<Longrightarrow> findOneAndUpdate k f coll = (None, coll)"
  by (induction coll) (auto split: if_splits)

lemma findOneAndUpdate_present:
  "find (\<lambda>d. doc_id d = k) coll = Some d \<Longrightarrow> fst (findOneAndUpdate k f coll) = Some (f d)"
  by (induction coll) (auto split: if_splits prod.splits)

lemma find_after_update:
  "find (\<lambda>d. doc_id d = k) coll = Some d \<Longrightarrow> doc_id (f d) = k \<Longrightarrow>
   find (\<lambda>d. doc_id d = k) (snd (findOneAndUpdate k f coll)) = Some (f d)"
  by (induction coll) (auto split: if_splits prod.splits)

lemma ids_after_update:
  "\<forall>d. doc_id (f d) = doc_id d \<Longrightarrow>
   map doc_id (snd (findOneAndUpdate k f coll)) = map doc_id coll"
  by (induction coll) (auto split: if_splits prod.splits)

lemma findOneAndDelete_absent:
  "find (\<lambda>d. doc_id d = k) coll = None \<Longrightarrow> findOneAndDelete k coll = (None, coll)"
  by (induction coll) (auto split: if_splits)

lemma findOneAndDelete_present:
  "find (\<lambda>d. doc_id d = k) coll = Some d \<Longrightarrow> fst (findOneAndDelete k coll) = Some d"
  by (induction coll) (auto split: if_splits prod.splits)

lemma ids_after_delete:
  "map doc_id (snd (findOneAndDelete k coll)) = remove1 k (map doc_id coll)"
  by (induction coll) (auto split: if_splits prod.splits)

lemma find_after_delete:
  assumes "distinct (map doc_id coll)"
  shows "find (\<lambda>d. doc_id d = k) (snd (findOneAndDelete k coll)) = None"
proof -
  have "k \<notin> set (remove1 k (map doc_id coll))"
    using assms by simp
  then have "k \<notin> doc_id ` set (snd (findOneAndDelete k coll))"
    by (simp add: ids_after_delete [symmetric])
  then show ?thesis
    by (simp add: find_None_iff_fresh)
qed

lemma castUpdate_keeps_id: "castUpdate omit now t s = Inr f \<Longrightarrow> doc_id (f d) = doc_id d"
  by (auto simp: castUpdate_def split: option.splits sum.splits)

lemma put_email_template_found:
  assumes "castObjectId ident = Some k" and "find (\<lambda>d. doc_id d = k) coll = Some old"
    and "castUpdate omit now (map_of req_body ''title'') (map_of req_body ''sections'') = Inr f"
  shows "put_email_template omit now ident req_body coll =
           ((200, Template (toJSON (f old))), snd (findOneAndUpdate k f coll))"
proof -
  have "fst (findOneAndUpdate k f coll) = Some (f old)"
    using assms(2) by (rule findOneAndUpdate_present)
  then show ?thesis
    using assms(1,3)
    by (cases "findOneAndUpdate k f coll")
      (simp add: put_email_template_def findByIdAndUpdate_def)
qed

lemma get_email_template_found:
  assumes "castObjectId ident = Some k" and "find (\<lambda>d. doc_id d = k) coll = Some d"
  shows "get_email_template ident coll = (200, Template (toJSON d))"
  using assms by (simp add: get_email_template_def findById_def)

text \<open>
  No route makes two documents share an identifier: the insert refuses a duplicate, the
  update keeps identifiers, the delete removes one.
\<close>

lemma post_keeps_ids_distinct:
  assumes "distinct (map doc_id coll)"
  shows "distinct (map doc_id (snd (post_email_templates oid now b coll)))"
  using assms
  by (auto simp: post_email_templates_def save_def EmailTemplate_def Let_def toObject_fields
      split: sum.splits option.splits if_splits)

lemma put_keeps_ids_distinct:
  assumes "distinct (map doc_id coll)"
  shows "distinct (map doc_id (snd (put_email_template omit now ident b coll)))"
proof (cases "findByIdAndUpdate omit now ident (map_of b ''title'') (map_of b ''sections'') coll")
  case (Inl e)
  then show ?thesis using assms by (simp add: put_email_template_def)
next
  case (Inr r)
  then obtain k f where f: "castUpdate omit now (map_of b ''title'') (map_of b ''sections'') = Inr f"
    and r: "r = findOneAndUpdate k f coll"
    by (auto simp: findByIdAndUpdate_def split: option.splits sum.splits)
  have "\<forall>d. doc_id (f d) = doc_id d"
    using f by (simp add: castUpdate_keeps_id)
  then have "map doc_id (snd r) = map doc_id coll"
    unfolding r by (rule ids_after_update)
  then show ?thesis
    using assms Inr by (cases r) (auto simp: put_email_template_def split: option.splits)
qed

lemma delete_keeps_ids_distinct:
  assumes "distinct (map doc_id coll)"
  shows "distinct (map doc_id (snd (delete_email_template ident coll)))"
proof (cases "castObjectId ident")
  case None
  then show ?thesis using assms by (simp add: delete_email_template_def findByIdAndDelete_def)
next
  case (Some k)
  have "distinct (map doc_id (snd (findOneAndDelete k coll)))"
    using assms by (simp add: ids_after_delete)
  then show ?thesis
    using Some
    by (cases "findOneAndDelete k coll")
      (auto simp: delete_email_template_def findByIdAndDelete_def split: option.splits)
qed

lemma app_keeps_ids_distinct:
  assumes "distinct (map doc_id (templates st))"
  shows "distinct (map doc_id (templates (snd (app e r st))))"
proof (cases r)
  case (POST_email_templates b)
  then show ?thesis
    using post_keeps_ids_distinct [OF assms, of "new_oid e" "clock e" b]
    by (auto split: prod.splits)
next
  case (PUT_email_template ident b)
  then show ?thesis
    using put_keeps_ids_distinct [OF assms, of "omit_undefined e" "clock e" ident b]
    by (auto split: prod.splits)
next
  case (DELETE_email_template ident)
  then show ?thesis
    using delete_keeps_ids_distinct [OF assms, of ident]
    by (auto split: prod.splits)
qed (use assms in \<open>simp_all split: prod.splits\<close>)

section \<open>Create, then read\<close>




section \<open>An identifier with no document\<close>

text \<open>
  Claim C2, as the code has it. When the route parameter is a well-formed identifier (the
  cast succeeds) and no stored document has it, GET and DELETE answer 404 with
  \<^verbatim>\<open>Template not found.\<close> and leave the collection as it is; PUT answers 404 too, unless
  the submitted title cannot be cast to a string, which is answered 500. When the route
  parameter is not a well-formed identifier, the driver's call throws the cast error and
  each of the three routes answers 500 from its \<^verbatim>\<open>catch\<close>.
\<close>

theorem getById_update_delete_on_missing_id:
  "(castObjectId ident = Some k \<and> k \<notin> doc_id ` set coll \<longrightarrow>
      get_email_template ident coll = (404, ErrorMessage ''Template not found.'')
    \<and> delete_email_template ident coll = ((404, ErrorMessage ''Template not found.''), coll)
    \<and> put_email_template omit now ident req_body coll =
        (case map_of req_body ''title'' of
           None \<Rightarrow> ((404, ErrorMessage ''Template not found.''), coll)
         | Some v \<Rightarrow>
             (case castString v of
                Inr x \<Rightarrow> ((404, ErrorMessage ''Template not found.''), coll)
              | Inl e \<Rightarrow> ((500, ErrorMessage ''Failed to update the email template.''), coll))))
   \<and> (castObjectId ident = None \<longrightarrow>
      get_email_template ident coll = (500, ErrorMessage ''Failed to fetch the email template.'')
    \<and> delete_email_template ident coll =
        ((500, ErrorMessage ''Failed to delete the email template.''), coll)
    \<and> put_email_template omit now ident req_body coll =
        ((500, ErrorMessage ''Failed to update the email template.''), coll))"
proof (intro conjI impI)
  assume a: "castObjectId ident = Some k \<and> k \<notin> doc_id ` set coll"
  then have absent: "find (\<lambda>d. doc_id d = k) coll = None"
    by (simp add: find_None_iff_fresh)
  from a absent show "get_email_template ident coll = (404, ErrorMessage ''Template not found.'')"
    by (simp add: get_email_template_def findById_def)
  from a absent show
    "delete_email_template ident coll = ((404, ErrorMessage ''Template not found.''), coll)"
    by (simp add: delete_email_template_def findByIdAndDelete_def findOneAndDelete_absent)
  from a absent show "put_email_template omit now ident req_body coll =
        (case map_of req_body ''title'' of
           None \<Rightarrow> ((404, ErrorMessage ''Template not found.''), coll)
         | Some v \<Rightarrow>
             (case castString v of
                Inr x \<Rightarrow> ((404, ErrorMessage ''Template not found.''), coll)
              | Inl e \<Rightarrow> ((500, ErrorMessage ''Failed to update the email template.''), coll)))"
    by (simp add: put_email_template_def findByIdAndUpdate_def castUpdate_def
        findOneAndUpdate_absent split: option.splits sum.splits)
next
  assume "castObjectId ident = None"
  then show "get_email_template ident coll = (500, ErrorMessage ''Failed to fetch the email template.'')"
    and "delete_email_template ident coll =
        ((500, ErrorMessage ''Failed to delete the email template.''), coll)"
    and "put_email_template omit now ident req_body coll =
        ((500, ErrorMessage ''Failed to update the email template.''), coll)"
    by (simp_all add: get_email_template_def findById_def delete_email_template_def
        findByIdAndDelete_def put_email_template_def findByIdAndUpdate_def)
qed

theorem getById_update_delete_on_missing_id_witness:
  "get_email_template ''507f1f77bcf86cd799439011'' [] = (404, ErrorMessage ''Template not found.'')
   \<and> delete_email_template ''507f1f77bcf86cd799439011'' []
       = ((404, ErrorMessage ''Template not found.''), [])
   \<and> put_email_template True 2000 ''507f1f77bcf86cd799439011''
        [(''title'', JStr ''Hello''), (''sections'', JArr [])] []
       = ((404, ErrorMessage ''Template not found.''), [])
   \<and> put_email_template True 2000 ''507f1f77bcf86cd799439011'' [(''title'', JArr [])] []
       = ((500, ErrorMessage ''Failed to update the email template.''), [])
   \<and> get_email_template ''not-an-id'' [] = (500, ErrorMessage ''Failed to fetch the email template.'')
   \<and> delete_email_template ''not-an-id'' []
       = ((500, ErrorMessage ''Failed to delete the email template.''), [])
   \<and> put_email_template True 2000 ''not-an-id'' [(''title'', JStr ''Hello'')] []
       = ((500, ErrorMessage ''Failed to update the email template.''), [])"
proof -
  have bad: "castObjectId ''not-an-id'' = None"
    by (simp add: castObjectId_def)
  have fresh: "(0x507f1f77bcf86cd799439011 :: objectid) \<notin> doc_id ` set []"
    by simp
  note ok = getById_update_delete_on_missing_id
    [of "''507f1f77bcf86cd799439011''" "0x507f1f77bcf86cd799439011" "[]" True 2000]
  note ko = getById_update_delete_on_missing_id
    [of "''not-an-id''" 0 "[]" True 2000 "[(''title'', JStr ''Hello'')]"]
  show ?thesis
    using ok [of "[(''title'', JStr ''Hello''), (''sections'', JArr [])]"]
      ok [of "[(''title'', JArr [])]"] ko castObjectId_example bad fresh
    by simp
qed

text \<open>
  The claim as it was stated (404 and never 500, whatever the form of the identifier)
  fails on the route parameter \<^verbatim>\<open>abc\<close> with an empty collection: no document has that
  identifier, and the three routes answer 500.
\<close>

theorem malformed_id_counterexample:
  "get_email_template ''abc'' [] = (500, ErrorMessage ''Failed to fetch the email template.'')
   \<and> put_email_template True 2000 ''abc'' [(''title'', JStr ''Hello''), (''sections'', JArr [])] []
       = ((500, ErrorMessage ''Failed to update the email template.''), [])
   \<and> delete_email_template ''abc'' []
       = ((500, ErrorMessage ''Failed to delete the email template.''), [])"
  by (simp add: get_email_template_def findById_def delete_email_template_def
      findByIdAndDelete_def put_email_template_def findByIdAndUpdate_def castObjectId_def)

section \<open>Update\<close>




text \<open>
  A field the request omits. With a driver that leaves an \<^verbatim>\<open>undefined\<close> entry out of the
  update, a PUT with no title keeps the stored title and a PUT with no sections keeps the
  stored sections; with a driver that writes the entry, the field becomes \<^verbatim>\<open>null\<close>. Which
  of the two the server does is decided by the installed driver.
\<close>

lemma update_omitted_field_by_driver:
  assumes "castObjectId ident = Some k" and "find (\<lambda>d. doc_id d = k) coll = Some old"
    and "map_of req_body ''title'' = None"
  shows "\<exists>updated coll'.
           put_email_template omit now ident req_body coll = ((200, Template updated), coll')
         \<and> title updated = (if omit then title old else None)
         \<and> get_email_template ident coll' = (200, Template updated)"
proof -
  obtain f where cast: "castUpdate omit now (map_of req_body ''title'') (map_of req_body ''sections'') = Inr f"
    and t: "title (f old) = (if omit then title old else None)" and i: "doc_id (f old) = doc_id old"
    using assms(3) by (simp add: castUpdate_def)
  have put: "put_email_template omit now ident req_body coll =
               ((200, Template (toJSON (f old))), snd (findOneAndUpdate k f coll))"
    using assms(1,2) cast by (rule put_email_template_found)
  have "doc_id (f old) = k"
    using find_Some_id [OF assms(2)] i by simp
  then have "find (\<lambda>d. doc_id d = k) (snd (findOneAndUpdate k f coll)) = Some (f old)"
    using assms(2) by (simp add: find_after_update)
  then have "get_email_template ident (snd (findOneAndUpdate k f coll)) = (200, Template (toJSON (f old)))"
    using assms(1) by (simp add: get_email_template_found)
  moreover have "title (toJSON (f old)) = (if omit then title old else None)"
    using t by (simp add: toJSON_fields)
  ultimately show ?thesis
    using put by blast
qed

section \<open>Delete, then read\<close>

text \<open>
  Claim C4. For the identifier of a stored document, in a collection whose identifiers
  are distinct, DELETE answers 200 with \<^verbatim>\<open>Template deleted successfully.\<close> and a GET with
  the same identifier afterwards answers 404.
\<close>

theorem delete_then_getById:
  assumes "castObjectId ident = Some k" and "find (\<lambda>d. doc_id d = k) coll = Some d"
    and "distinct (map doc_id coll)"
  shows "\<exists>coll'.
           delete_email_template ident coll = ((200, Message ''Template deleted successfully.''), coll')
         \<and> get_email_template ident coll' = (404, ErrorMessage ''Template not found.'')"
proof -
  let ?coll' = "snd (findOneAndDelete k coll)"
  have "fst (findOneAndDelete k coll) = Some d"
    using assms(2) by (rule findOneAndDelete_present)
  then have del: "delete_email_template ident coll =
                    ((200, Message ''Template deleted successfully.''), ?coll')"
    using assms(1)
    by (cases "findOneAndDelete k coll")
      (simp add: delete_email_template_def findByIdAndDelete_def)
  have "find (\<lambda>d. doc_id d = k) ?coll' = None"
    using assms(3) by (rule find_after_delete)
  then have "get_email_template ident ?coll' = (404, ErrorMessage ''Template not found.'')"
    using assms(1) by (simp add: get_email_template_def findById_def)
  with del show ?thesis by blast
qed

theorem delete_then_getById_witness:
  "delete_email_template ''507f1f77bcf86cd799439011''
     [\<lparr> doc_id = 0x507f1f77bcf86cd799439011, title = Some ''Welcome'',
        sections = Some [JObj [(''type'', JStr ''text'')]],
        createdAt = 1000, updatedAt = 1000 \<rparr>]
   = ((200, Message ''Template deleted successfully.''), [])
   \<and> get_email_template ''507f1f77bcf86cd799439011'' []
     = (404, ErrorMessage ''Template not found.'')"
proof -
  let ?k = "0x507f1f77bcf86cd799439011 :: objectid"
  let ?old = "\<lparr> doc_id = ?k, title = Some ''Welcome'',
        sections = Some [JObj [(''type'', JStr ''text'')]], createdAt = 1000, updatedAt = 1000 \<rparr>"
  have h2: "find (\<lambda>d. doc_id d = ?k) [?old] = Some ?old" by simp
  have h3: "distinct (map doc_id [?old])" by simp
  have p: "delete_email_template ''507f1f77bcf86cd799439011'' [?old]
             = ((200, Message ''Template deleted successfully.''), [])"
    by (simp add: delete_email_template_def findByIdAndDelete_def castObjectId_example)
  from delete_then_getById [OF castObjectId_example h2 h3]
  obtain coll' where
    s1: "delete_email_template ''507f1f77bcf86cd799439011'' [?old]
           = ((200, Message ''Template deleted successfully.''), coll')" and
    s2: "get_email_template ''507f1f77bcf86cd799439011'' coll' = (404, ErrorMessage ''Template not found.'')"
    by auto
  from s1 [unfolded p] have "coll' = []" by auto
  with s2 p show ?thesis by simp
qed

section \<open>The status of a create\<close>

text \<open>
  Claim C5. POST answers 201 with the stored document (the identifier drawn, a non-empty
  title, both timestamps at the time of the save, the document appended to the
  collection, and the response showing what a read of the stored document shows) exactly
  when the save succeeds, and otherwise 500 with \<^verbatim>\<open>Failed to create email template.\<close>
  and an unchanged collection. A body with no title is such a failure.
\<close>

theorem create_responds_201_or_500:
  "((\<exists>d. post_email_templates oid now req_body coll
             = ((201, Template (toJSON (toObject d))), coll @ [toObject d])
         \<and> save now (EmailTemplate oid (map_of req_body ''title'') (map_of req_body ''sections'')) coll
             = Inr (d, coll @ [toObject d])
         \<and> doc_id (toObject d) = oid \<and> (\<exists>t. title (toObject d) = Some t \<and> t \<noteq> [])
         \<and> createdAt (toObject d) = now \<and> updatedAt (toObject d) = now)
    \<or> (post_email_templates oid now req_body coll
           = ((500, ErrorMessage ''Failed to create email template.''), coll)
         \<and> (\<exists>e. save now (EmailTemplate oid (map_of req_body ''title'') (map_of req_body ''sections'')) coll
                = Inl e)))
   \<and> (map_of req_body ''title'' = None \<longrightarrow>
         post_email_templates oid now req_body coll
           = ((500, ErrorMessage ''Failed to create email template.''), coll))"
proof (intro conjI impI)
  let ?d = "EmailTemplate oid (map_of req_body ''title'') (map_of req_body ''sections'')"
  show "(\<exists>d. post_email_templates oid now req_body coll
             = ((201, Template (toJSON (toObject d))), coll @ [toObject d])
         \<and> save now ?d coll = Inr (d, coll @ [toObject d])
         \<and> doc_id (toObject d) = oid \<and> (\<exists>t. title (toObject d) = Some t \<and> t \<noteq> [])
         \<and> createdAt (toObject d) = now \<and> updatedAt (toObject d) = now)
    \<or> (post_email_templates oid now req_body coll
           = ((500, ErrorMessage ''Failed to create email template.''), coll)
         \<and> (\<exists>e. save now ?d coll = Inl e))"
  proof (cases "save now ?d coll")
    case (Inl e)
    then show ?thesis by (simp add: post_email_templates_def)
  next
    case (Inr r)
    then obtain t d where t: "draft_title ?d = Inr (Some t)" "t \<noteq> []"
      and d: "d = \<lparr>doc_id = draft_id ?d, title = Some t, sections = draft_sections ?d,
                     createdAt = now, updatedAt = now\<rparr>"
      and r: "r = (d, coll @ [toObject d])"
      by (auto simp: save_def Let_def split: sum.splits option.splits if_splits)
    have "draft_id ?d = oid" by (simp add: EmailTemplate_def)
    with d t have "doc_id (toObject d) = oid" "title (toObject d) = Some t"
      "createdAt (toObject d) = now" "updatedAt (toObject d) = now"
      by (simp_all add: toObject_fields)
    with Inr r t show ?thesis
      by (simp add: post_email_templates_def toJSON_toObject)
  qed
next
  assume "map_of req_body ''title'' = None"
  then show "post_email_templates oid now req_body coll
           = ((500, ErrorMessage ''Failed to create email template.''), coll)"
    by (simp add: post_email_templates_def save_def EmailTemplate_def)
qed

theorem create_responds_201_or_500_witness:
  "post_email_templates 0x507f1f77bcf86cd799439011 1000
     [(''title'', JStr ''Welcome''), (''sections'', JArr [JStr ''a''])] []
   = ((201, Template \<lparr> doc_id = 0x507f1f77bcf86cd799439011, title = Some ''Welcome'',
          sections = Some [JStr ''a''], createdAt = 1000, updatedAt = 1000 \<rparr>),
      [\<lparr> doc_id = 0x507f1f77bcf86cd799439011, title = Some ''Welcome'',
          sections = Some [JStr ''a''], createdAt = 1000, updatedAt = 1000 \<rparr>])
   \<and> post_email_templates 0x507f1f77bcf86cd799439011 1000 [(''sections'', JArr [JStr ''a''])] []
   = ((500, ErrorMessage ''Failed to create email template.''), [])
   \<and> post_email_templates 0x507f1f77bcf86cd799439011 1000
        [(''title'', JStr ''''), (''sections'', JArr [JStr ''a''])] []
   = ((500, ErrorMessage ''Failed to create email template.''), [])"
proof -
  have missing: "map_of [(''sections'', JArr [JStr ''a''])] ''title'' = None" by simp
  have "post_email_templates 0x507f1f77bcf86cd799439011 1000 [(''sections'', JArr [JStr ''a''])] []
          = ((500, ErrorMessage ''Failed to create email template.''), [])"
    using create_responds_201_or_500
      [of "0x507f1f77bcf86cd799439011" 1000 "[(''sections'', JArr [JStr ''a''])]" "[]"] missing
    by blast
  then show ?thesis
    by (simp add: post_email_templates_def save_def EmailTemplate_def Let_def
        toJSON_def toObject_def)
qed

text \<open>
  Claim C8. When the body of a create has no sections, the document that is stored and
  returned has the empty array for sections (or the create fails with 500 and stores
  nothing); with a non-empty string title and a fresh identifier the create succeeds.
\<close>

theorem create_without_sections:
  "map_of req_body ''sections'' = None \<longrightarrow>
     (post_email_templates oid now req_body coll
        = ((500, ErrorMessage ''Failed to create email template.''), coll)
      \<or> (\<exists>d. post_email_templates oid now req_body coll = ((201, Template d), coll @ [d])
            \<and> sections d = Some []))
   \<and> (\<forall>t. map_of req_body ''title'' = Some (JStr t) \<and> t \<noteq> [] \<and> oid \<notin> doc_id ` set coll \<longrightarrow>
         post_email_templates oid now req_body coll
           = ((201, Template \<lparr> doc_id = oid, title = Some t, sections = Some [],
                                 createdAt = now, updatedAt = now \<rparr>),
              coll @ [\<lparr> doc_id = oid, title = Some t, sections = Some [],
                         createdAt = now, updatedAt = now \<rparr>]))"
proof (intro impI conjI allI)
  assume omitted: "map_of req_body ''sections'' = None"
  let ?d = "EmailTemplate oid (map_of req_body ''title'') (map_of req_body ''sections'')"
  have s: "draft_sections ?d = Some []"
    using omitted by (simp add: EmailTemplate_def)
  show "post_email_templates oid now req_body coll
        = ((500, ErrorMessage ''Failed to create email template.''), coll)
      \<or> (\<exists>d. post_email_templates oid now req_body coll = ((201, Template d), coll @ [d])
            \<and> sections d = Some [])"
  proof (cases "save now ?d coll")
    case (Inl e)
    then show ?thesis by (simp add: post_email_templates_def)
  next
    case (Inr r)
    then obtain d where "r = (d, coll @ [toObject d])" and "sections d = draft_sections ?d"
      by (auto simp: save_def Let_def split: sum.splits option.splits if_splits)
    with s have "r = (d, coll @ [toObject d])" and "toJSON d = d" and "toObject d = d"
      and "sections d = Some []"
      by (simp_all add: toJSON_def toObject_def)
    with Inr show ?thesis by (simp add: post_email_templates_def)
  qed
next
  fix t
  assume omitted: "map_of req_body ''sections'' = None"
    and "map_of req_body ''title'' = Some (JStr t) \<and> t \<noteq> [] \<and> oid \<notin> doc_id ` set coll"
  then show "post_email_templates oid now req_body coll
           = ((201, Template \<lparr> doc_id = oid, title = Some t, sections = Some [],
                                 createdAt = now, updatedAt = now \<rparr>),
              coll @ [\<lparr> doc_id = oid, title = Some t, sections = Some [],
                         createdAt = now, updatedAt = now \<rparr>])"
    by (simp add: post_email_templates_def save_def EmailTemplate_def Let_def
        toJSON_def toObject_def)
qed

theorem create_without_sections_witness:
  "post_email_templates 0x507f1f77bcf86cd799439011 1000 [(''title'', JStr ''Welcome'')] []
   = ((201, Template \<lparr> doc_id = 0x507f1f77bcf86cd799439011, title = Some ''Welcome'',
          sections = Some [], createdAt = 1000, updatedAt = 1000 \<rparr>),
      [\<lparr> doc_id = 0x507f1f77bcf86cd799439011, title = Some ''Welcome'',
          sections = Some [], createdAt = 1000, updatedAt = 1000 \<rparr>])"
proof -
  have h: "map_of [(''title'', JStr ''Welcome'')] ''sections'' = None"
    "map_of [(''title'', JStr ''Welcome'')] ''title'' = Some (JStr ''Welcome'')"
    "''Welcome'' \<noteq> []" "(0x507f1f77bcf86cd799439011 :: objectid) \<notin> doc_id ` set []"
    by simp_all
  note w = create_without_sections
      [of "[(''title'', JStr ''Welcome'')]" "0x507f1f77bcf86cd799439011" 1000 "[]",
       THEN mp, OF h(1), THEN conjunct2, THEN spec, of "''Welcome''", THEN mp]
  have "map_of [(''title'', JStr ''Welcome'')] ''title'' = Some (JStr ''Welcome'')
      \<and> ''Welcome'' \<noteq> [] \<and> (0x507f1f77bcf86cd799439011 :: objectid) \<notin> doc_id ` set []"
    using h(2,3,4) by (intro conjI)
  from w [OF this] show ?thesis
    by (simp only: append_Nil)
qed

text \<open>
  Claim C10. Two bodies that agree on title and on sections are answered alike, whatever
  else they hold: with the same identifier and clock the responses and the collections
  are equal, and when both creates succeed under different identifiers and clocks, the
  stored documents differ in the identifier and the timestamps only.
\<close>

theorem create_reads_title_and_sections_only:
  assumes "map_of b1 ''title'' = map_of b2 ''title''"
    and "map_of b1 ''sections'' = map_of b2 ''sections''"
  shows "post_email_templates oid now b1 coll = post_email_templates oid now b2 coll
       \<and> (\<forall>oid' now' d1 d2 c1 c2.
             post_email_templates oid now b1 coll = ((201, Template d1), c1)
           \<and> post_email_templates oid' now' b2 coll = ((201, Template d2), c2)
           \<longrightarrow> d2 = d1\<lparr>doc_id := oid', createdAt := now', updatedAt := now'\<rparr>)"
proof (intro conjI allI impI)
  show "post_email_templates oid now b1 coll = post_email_templates oid now b2 coll"
    using assms by (simp add: post_email_templates_def)
next
  fix oid' now' d1 d2 c1 c2
  assume "post_email_templates oid now b1 coll = ((201, Template d1), c1)
           \<and> post_email_templates oid' now' b2 coll = ((201, Template d2), c2)"
  then show "d2 = d1\<lparr>doc_id := oid', createdAt := now', updatedAt := now'\<rparr>"
    using assms
    by (auto simp: post_email_templates_def save_def EmailTemplate_def Let_def toJSON_def
        split: sum.splits option.splits if_splits)
qed

theorem create_reads_title_and_sections_only_witness:
  "post_email_templates 0x507f1f77bcf86cd799439011 1000
     [(''title'', JStr ''Welcome''), (''sections'', JArr [JStr ''a''])] []
   = post_email_templates 0x507f1f77bcf86cd799439011 1000
     [(''_id'', JStr ''000000000000000000000001''), (''title'', JStr ''Welcome''),
      (''createdAt'', JNum ''0''), (''sections'', JArr [JStr ''a'']), (''admin'', JBool True)] []
   \<and> post_email_templates 0x507f1f77bcf86cd799439011 1000
     [(''_id'', JStr ''000000000000000000000001''), (''title'', JStr ''Welcome''),
      (''createdAt'', JNum ''0''), (''sections'', JArr [JStr ''a'']), (''admin'', JBool True)] []
   = ((201, Template \<lparr> doc_id = 0x507f1f77bcf86cd799439011, title = Some ''Welcome'',
          sections = Some [JStr ''a''], createdAt = 1000, updatedAt = 1000 \<rparr>),
      [\<lparr> doc_id = 0x507f1f77bcf86cd799439011, title = Some ''Welcome'',
          sections = Some [JStr ''a''], createdAt = 1000, updatedAt = 1000 \<rparr>])"
proof -
  let ?b1 = "[(''title'', JStr ''Welcome''), (''sections'', JArr [JStr ''a''])]"
  let ?b2 = "[(''_id'', JStr ''000000000000000000000001''), (''title'', JStr ''Welcome''),
      (''createdAt'', JNum ''0''), (''sections'', JArr [JStr ''a'']), (''admin'', JBool True)]"
  have h1: "map_of ?b1 ''title'' = map_of ?b2 ''title''" by simp
  have h2: "map_of ?b1 ''sections'' = map_of ?b2 ''sections''" by simp
  have same: "post_email_templates 0x507f1f77bcf86cd799439011 1000 ?b1 []
            = post_email_templates 0x507f1f77bcf86cd799439011 1000 ?b2 []"
    using create_reads_title_and_sections_only [OF h1 h2] by blast
  have "post_email_templates 0x507f1f77bcf86cd799439011 1000 ?b1 []
     = ((201, Template \<lparr> doc_id = 0x507f1f77bcf86cd799439011, title = Some ''Welcome'',
          sections = Some [JStr ''a''], createdAt = 1000, updatedAt = 1000 \<rparr>),
      [\<lparr> doc_id = 0x507f1f77bcf86cd799439011, title = Some ''Welcome'',
          sections = Some [JStr ''a''], createdAt = 1000, updatedAt = 1000 \<rparr>])"
    by (simp add: post_email_templates_def save_def EmailTemplate_def Let_def
        toJSON_def toObject_def)
  with same show ?thesis by simp
qed

section \<open>Uploading an image\<close>

lemma multer_files_unnamed:
  "\<forall>f \<in> set parts. originalname f = [] \<Longrightarrow>
   multer_files name params pid n parts req_file m = (Inr req_file, m)"
  by (induction parts) auto

text \<open>
  Claim C6, as the code has it. A request with no file at all (no part that has a file
  name) is answered 400 with \<^verbatim>\<open>No image uploaded.\<close>, and neither the templates nor the
  media host change. A request whose file is attached under another field name is
  refused by the upload middleware before the handler runs: the answer is 500, and
  again nothing changes. A request whose one file is under \<^verbatim>\<open>image\<close> and is accepted
  by the media host is answered 200 with the URL of the new asset.
\<close>

theorem upload_image_responses:
  "((\<forall>f \<in> set parts. originalname f = []) \<longrightarrow>
      app e (POST_upload_image parts) st = ((400, ErrorMessage ''No image uploaded.''), st))
   \<and> (originalname f \<noteq> [] \<and> fieldname f \<noteq> ''image'' \<longrightarrow>
      app e (POST_upload_image [f]) st = ((500, ErrorPage), st))
   \<and> (originalname f \<noteq> [] \<and> fieldname f = ''image''
        \<and> format f \<in> {''jpg'', ''png'', ''jpeg'', ''gif''} \<longrightarrow>
      app e (POST_upload_image [f]) st =
        ((200, ImageUrl (secure_url \<lparr> asset_folder = ''email-images'',
                                       public_id = new_public_id e,
                                       asset_format = format f \<rparr>)),
         st\<lparr>images := images st @ [\<lparr> asset_folder = ''email-images'',
                                       public_id = new_public_id e,
                                       asset_format = format f \<rparr>]\<rparr>))"
proof (intro conjI impI)
  assume "\<forall>f \<in> set parts. originalname f = []"
  then have "upload_single ''image'' (new_public_id e) parts (images st) = (Inr None, images st)"
    unfolding upload_single_def by (rule multer_files_unnamed)
  then show "app e (POST_upload_image parts) st = ((400, ErrorMessage ''No image uploaded.''), st)"
    by (simp add: post_upload_image_def)
next
  assume "originalname f \<noteq> [] \<and> fieldname f \<noteq> ''image''"
  then have "upload_single ''image'' (new_public_id e) [f] (images st)
               = (Inl LIMIT_UNEXPECTED_FILE, images st)"
    by (simp add: upload_single_def removeUploaded_def)
  then show "app e (POST_upload_image [f]) st = ((500, ErrorPage), st)"
    by (simp add: post_upload_image_def)
next
  let ?a = "\<lparr> asset_folder = ''email-images'', public_id = new_public_id e,
               asset_format = format f \<rparr>"
  assume "originalname f \<noteq> [] \<and> fieldname f = ''image''
        \<and> format f \<in> {''jpg'', ''png'', ''jpeg'', ''gif''}"
  then have "upload_single ''image'' (new_public_id e) [f] (images st)
               = (Inr (Some ?a), images st @ [?a])"
    by (auto simp: upload_single_def cloudinary_upload_def storage_def Let_def)
  then show "app e (POST_upload_image [f]) st =
        ((200, ImageUrl (secure_url ?a)), st\<lparr>images := images st @ [?a]\<rparr>)"
    by (simp add: post_upload_image_def)
qed

theorem upload_image_responses_witness:
  "app \<lparr> new_oid = 0, clock = 1000, new_public_id = ''p1'', omit_undefined = True \<rparr> (POST_upload_image [])
       \<lparr> templates = [], images = [] \<rparr>
     = ((400, ErrorMessage ''No image uploaded.''), \<lparr> templates = [], images = [] \<rparr>)
   \<and> app \<lparr> new_oid = 0, clock = 1000, new_public_id = ''p1'', omit_undefined = True \<rparr>
       (POST_upload_image [\<lparr> fieldname = ''photo'', originalname = ''cat.png'', format = ''png'' \<rparr>])
       \<lparr> templates = [], images = [] \<rparr>
     = ((500, ErrorPage), \<lparr> templates = [], images = [] \<rparr>)
   \<and> app \<lparr> new_oid = 0, clock = 1000, new_public_id = ''p1'', omit_undefined = True \<rparr>
       (POST_upload_image [\<lparr> fieldname = ''image'', originalname = ''cat.png'', format = ''png'' \<rparr>])
       \<lparr> templates = [], images = [] \<rparr>
     = ((200, ImageUrl ''https://res.cloudinary.com/image/upload/email-images/p1.png''),
        \<lparr> templates = [],
          images = [\<lparr> asset_folder = ''email-images'', public_id = ''p1'', asset_format = ''png'' \<rparr>] \<rparr>)"
proof -
  let ?e = "\<lparr> new_oid = 0, clock = 1000, new_public_id = ''p1'', omit_undefined = True \<rparr>"
  let ?st = "\<lparr> templates = [], images = [] \<rparr>"
  let ?photo = "\<lparr> fieldname = ''photo'', originalname = ''cat.png'', format = ''png'' \<rparr>"
  let ?image = "\<lparr> fieldname = ''image'', originalname = ''cat.png'', format = ''png'' \<rparr>"
  show ?thesis
    using upload_image_responses [of "[]" ?e ?st ?photo]
      upload_image_responses [of "[]" ?e ?st ?image]
    by (simp add: secure_url_def)
qed

text \<open>
  The claim as it was stated (400 whenever no file is attached under the field
  \<^verbatim>\<open>image\<close>) fails on a request whose only file is attached under \<^verbatim>\<open>photo\<close>: the
  answer is 500.
\<close>

theorem upload_other_field_counterexample:
  "post_upload_image ''p1''
     [\<lparr> fieldname = ''photo'', originalname = ''cat.png'', format = ''png'' \<rparr>] []
   = ((500, ErrorPage), [])"
  by (simp add: post_upload_image_def upload_single_def removeUploaded_def)

text \<open>
  Claim C7. The upload accepts a file whose format is one of jpg, png, jpeg, gif and
  keeps it in the folder \<^verbatim>\<open>email-images\<close>; it rejects a file of any other format with
  \<open>UnsupportedFormatError\<close>, and the route then answers 500 and keeps nothing.
\<close>

theorem upload_allow_list:
  "(format f \<in> {''jpg'', ''png'', ''jpeg'', ''gif''} \<longrightarrow>
      cloudinary_upload storage pid f m =
        Inr (\<lparr> asset_folder = ''email-images'', public_id = pid, asset_format = format f \<rparr>,
             m @ [\<lparr> asset_folder = ''email-images'', public_id = pid, asset_format = format f \<rparr>]))
   \<and> (format f \<notin> {''jpg'', ''png'', ''jpeg'', ''gif''} \<longrightarrow>
      cloudinary_upload storage pid f m = Inl UnsupportedFormatError
      \<and> (originalname f \<noteq> [] \<and> fieldname f = ''image'' \<longrightarrow>
           post_upload_image pid [f] m = ((500, ErrorPage), m)))"
  by (auto simp: cloudinary_upload_def storage_def Let_def post_upload_image_def
      upload_single_def removeUploaded_def)

theorem upload_allow_list_witness:
  "cloudinary_upload storage ''p1''
     \<lparr> fieldname = ''image'', originalname = ''cat.gif'', format = ''gif'' \<rparr> []
     = Inr (\<lparr> asset_folder = ''email-images'', public_id = ''p1'', asset_format = ''gif'' \<rparr>,
            [\<lparr> asset_folder = ''email-images'', public_id = ''p1'', asset_format = ''gif'' \<rparr>])
   \<and> cloudinary_upload storage ''p1''
     \<lparr> fieldname = ''image'', originalname = ''doc.pdf'', format = ''pdf'' \<rparr> []
     = Inl UnsupportedFormatError
   \<and> post_upload_image ''p1''
       [\<lparr> fieldname = ''image'', originalname = ''doc.pdf'', format = ''pdf'' \<rparr>] []
     = ((500, ErrorPage), [])"
  using upload_allow_list
      [of "\<lparr> fieldname = ''image'', originalname = ''cat.gif'', format = ''gif'' \<rparr>" "''p1''" "[]"]
    upload_allow_list
      [of "\<lparr> fieldname = ''image'', originalname = ''doc.pdf'', format = ''pdf'' \<rparr>" "''p1''" "[]"]
  by simp

end
